theory Spec2Isabelle
  imports Complex_Main
begin

section \<open>Strings\<close>

text \<open>
  A Python \<open>str\<close> is modelled as a \<^typ>\<open>string\<close>: a list of characters, each standing
  for the code point of the same number (U+0000 to U+00FF). \<^const>\<open>length\<close> is Python's
  \<open>len\<close>, \<open>take n\<close> is the slice \<open>[:n]\<close>.
\<close>

definition dquote :: char where
  "dquote = CHR 0x22"

definition backslash :: char where
  "backslash = CHR 0x5C"

definition newline :: char where
  "newline = CHR 0x0A"

subsection \<open>\<open>sanitize_filename\<close>\<close>

text \<open>
  The character class of the regular expression \<^verbatim>\<open>[<>:"/\\|?*]\<close> of
  \<open>sanitize_filename\<close>: the nine characters that \<open>re.sub\<close> deletes.
\<close>

definition invalid_chars :: "char list" where
  "invalid_chars =
     [CHR ''<'', CHR ''>'', CHR '':'', dquote, CHR ''/'', backslash, CHR ''|'', CHR ''?'', CHR ''*'']"

definition is_invalid :: "char \<Rightarrow> bool" where
  "is_invalid c = (c \<in> set invalid_chars)"

text \<open>
  \<^verbatim>\<open>clean = re.sub(r'[<>:"/\\|?*]', '', filename)\<close>, then
  \<^verbatim>\<open>return clean[:150] if len(clean) > 150 else clean\<close>.
\<close>

definition sanitize_filename :: "string \<Rightarrow> string" where
  "sanitize_filename filename =
     (let clean = filter (\<lambda>c. \<not> is_invalid c) filename
      in if length clean > 150 then take 150 clean else clean)"

subsection \<open>The string methods the program calls\<close>

text \<open>
  \<open>str.lower\<close> on the code points below 256: the letters A to Z and the Latin-1 capitals
  U+00C0 to U+00DE (without the multiplication sign U+00D7) move up by 32.
\<close>

definition lower_char :: "char \<Rightarrow> char" where
  "lower_char c =
     (let n = (of_char c :: nat)
      in if (65 \<le> n \<and> n \<le> 90) \<or> (192 \<le> n \<and> n \<le> 222 \<and> n \<noteq> 215)
         then char_of (n + 32) else c)"

definition lower :: "string \<Rightarrow> string" where
  "lower s = map lower_char s"

text \<open>
  \<open>str.isspace\<close> on the code points below 256: tab to carriage return, the four
  separators U+001C to U+001F, the space, U+0085 and U+00A0.
\<close>

definition isspace :: "char \<Rightarrow> bool" where
  "isspace c =
     (let n = (of_char c :: nat)
      in (9 \<le> n \<and> n \<le> 13) \<or> (28 \<le> n \<and> n \<le> 32) \<or> n = 133 \<or> n = 160)"

definition strip :: "string \<Rightarrow> string" where
  "strip s = rev (dropWhile isspace (rev (dropWhile isspace s)))"

definition startswith :: "string \<Rightarrow> string \<Rightarrow> bool" where
  "startswith s pre = (take (length pre) s = pre)"

definition endswith :: "string \<Rightarrow> string \<Rightarrow> bool" where
  "endswith s suf = (length suf \<le> length s \<and> drop (length s - length suf) s = suf)"

text \<open>\<open>contains s sub\<close> is Python's \<open>sub in s\<close>.\<close>

fun contains :: "string \<Rightarrow> string \<Rightarrow> bool" where
  "contains [] sub = (sub = [])"
| "contains (c # cs) sub = (startswith (c # cs) sub \<or> contains cs sub)"

text \<open>
  \<open>str_split s sep\<close> is \<open>s.split(sep)\<close> for a one-character separator. The result is
  never empty, so the case of an empty list of pieces is never taken.
\<close>

fun str_split :: "string \<Rightarrow> char \<Rightarrow> string list" where
  "str_split [] sep = [[]]"
| "str_split (c # cs) sep =
     (if c = sep then [] # str_split cs sep
      else (case str_split cs sep of
              [] \<Rightarrow> [[c]]
            | piece # pieces \<Rightarrow> (c # piece) # pieces))"

text \<open>\<open>str(n)\<close> for a natural number: its decimal digits.\<close>

function str_nat :: "nat \<Rightarrow> string" where
  "str_nat n =
     (if n < 10 then [char_of (48 + n)]
      else str_nat (n div 10) @ [char_of (48 + n mod 10)])"
  by pat_completeness auto
termination
  by (relation "measure (\<lambda>n. n)") auto

declare str_nat.simps [simp del]

text \<open>
  \<open>repr(s)\<close> for a string, as Python prints a file name inside the text of an
  \<open>OSError\<close>: in single quotes, or in double quotes when the string has a single quote
  and no double quote; the backslash and the chosen quote are escaped, as are newline,
  carriage return and tab; any other character that is not printable is written as
  a backslash, \<open>x\<close> and two hexadecimal digits.
\<close>

definition apostrophe :: char where
  "apostrophe = CHR 0x27"

definition hex_digit :: "nat \<Rightarrow> char" where
  "hex_digit n = (if n < 10 then char_of (48 + n) else char_of (87 + n))"

definition isprintable :: "char \<Rightarrow> bool" where
  "isprintable c =
     (let n = (of_char c :: nat)
      in (32 \<le> n \<and> n < 127) \<or> (161 \<le> n \<and> n \<noteq> 173))"

definition repr_char :: "char \<Rightarrow> char \<Rightarrow> string" where
  "repr_char quote c =
     (if c = quote \<or> c = backslash then [backslash, c]
      else if c = newline then [backslash, CHR ''n'']
      else if c = CHR 0x0D then [backslash, CHR ''r'']
      else if c = CHR 0x09 then [backslash, CHR ''t'']
      else if isprintable c then [c]
      else [backslash, CHR ''x'', hex_digit ((of_char c :: nat) div 16),
            hex_digit ((of_char c :: nat) mod 16)])"

definition repr :: "string \<Rightarrow> string" where
  "repr s =
     (let quote = (if apostrophe \<in> set s \<and> dquote \<notin> set s then dquote else apostrophe)
      in [quote] @ concat (map (repr_char quote) s) @ [quote])"

text \<open>\<open>repr\<close> of a list of strings: the items in brackets, separated by a comma and a space.\<close>

fun comma_separated :: "string list \<Rightarrow> string" where
  "comma_separated [] = []"
| "comma_separated [x] = x"
| "comma_separated (x # y # ys) = x @ '', '' @ comma_separated (y # ys)"

definition repr_list :: "string list \<Rightarrow> string" where
  "repr_list xs = ''['' @ comma_separated (map repr xs) @ '']''"

subsection \<open>Paths\<close>

text \<open>
  Paths are strings, with the functions of \<open>os.path\<close> as \<open>posixpath\<close> defines them
  (separator \<open>/\<close>).
\<close>

definition join :: "string \<Rightarrow> string \<Rightarrow> string" where
  "join a b =
     (if startswith b ''/'' then b
      else if a = [] \<or> endswith a ''/'' then a @ b
      else a @ ''/'' @ b)"

definition basename :: "string \<Rightarrow> string" where
  "basename p = rev (takeWhile (\<lambda>c. c \<noteq> CHR ''/'') (rev p))"

text \<open>\<open>rfind p c\<close> is \<open>p.rfind(c)\<close>: the last index of \<open>c\<close>, or \<open>-1\<close>.\<close>

definition rfind :: "string \<Rightarrow> char \<Rightarrow> int" where
  "rfind p c =
     (if c \<in> set p
      then int (length p) - 1 - int (length (takeWhile (\<lambda>x. x \<noteq> c) (rev p)))
      else - 1)"

text \<open>
  \<open>os.path.splitext\<close>: the extension starts at the last dot of the last component,
  unless only dots precede it there.
\<close>

definition splitext :: "string \<Rightarrow> string \<times> string" where
  "splitext p =
     (let sepIndex = rfind p (CHR ''/'');
          dotIndex = rfind p (CHR ''.'')
      in if dotIndex > sepIndex
            \<and> list_ex (\<lambda>c. c \<noteq> CHR ''.'') (drop (nat (sepIndex + 1)) (take (nat dotIndex) p))
         then (take (nat dotIndex) p, drop (nat dotIndex) p)
         else (p, []))"

section \<open>The world the program runs in\<close>

subsection \<open>Exceptions and the file system\<close>

text \<open>
  An exception (an instance of \<open>Exception\<close>) is its class name and its description,
  the string \<open>str(e)\<close>.
\<close>

datatype py_exception = Exception (exc_class: string) (exc_str: string)

definition FileNotFoundError :: "string \<Rightarrow> py_exception" where
  "FileNotFoundError p =
     Exception ''FileNotFoundError'' (''[Errno 2] No such file or directory: '' @ repr p)"

definition FileExistsError :: "string \<Rightarrow> py_exception" where
  "FileExistsError p =
     Exception ''FileExistsError'' (''[Errno 17] File exists: '' @ repr p)"

definition IsADirectoryError :: "string \<Rightarrow> py_exception" where
  "IsADirectoryError p =
     Exception ''IsADirectoryError'' (''[Errno 21] Is a directory: '' @ repr p)"

text \<open>
  The exception of \<open>subprocess.run\<close> when the time is over; its text names the command
  and the number of seconds.
\<close>

definition TimeoutExpired :: "string list \<Rightarrow> nat \<Rightarrow> py_exception" where
  "TimeoutExpired cmd timeout =
     Exception ''TimeoutExpired''
       (''Command '' @ [apostrophe] @ repr_list cmd @ [apostrophe]
          @ '' timed out after '' @ str_nat timeout @ '' seconds'')"

definition ZeroDivisionError :: py_exception where
  "ZeroDivisionError = Exception ''ZeroDivisionError'' ''float division by zero''"

text \<open>
  What \<open>os.stat\<close> tells the program about a path: whether it is a directory, its size in
  bytes and its modification time. The time is the number \<open>os.path.getmtime\<close> returns;
  the program only compares two of them.
\<close>

record stat =
  st_isdir :: bool
  st_size :: nat
  st_mtime :: rat

text \<open>
  The result message of \<open>convert_file\<close>. The summary of a successful conversion is kept
  as the two numbers the format string
  \<^verbatim>\<open>Ukuran: {output_size:.2f}MB (Kompresi: {compression_ratio:.1f}%)\<close> prints.
\<close>

datatype message = Summary rat rat | Text string

text \<open>
  One constructor for each call of \<open>logging\<close> in the source, with the values its format
  string prints. The prefix is the level of the call.
\<close>

datatype log_record =
    Error_ffmpeg_not_found
  | Info_download
  | Info_extract
  | Warning_no_mp4
  | Info_found nat
  | Info_converting nat nat string
  | Info_skipped string
  | Info_success string message
  | Error_failed string
  | Error_cause message
  | Info_rule_top
  | Info_report_title
  | Info_total nat
  | Info_berhasil nat
  | Info_gagal int
  | Info_waktu int int
  | Info_input_size rat
  | Info_output_size rat
  | Info_savings rat rat
  | Info_output_dir string
  | Info_rule

text \<open>
  The state the program changes: the entries of the file system (a path with its stat,
  the first entry of a path is the one that counts), the text the program wrote into files,
  and the messages it logged. Two more fields record what the program did: the
  calls of \<open>convert_file\<close> (input path, output path) and the commands given to
  \<open>subprocess.run\<close>.
\<close>

record world =
  fs :: "(string \<times> stat) list"
  texts :: "string \<Rightarrow> string option"
  logged :: "log_record list"
  calls :: "(string \<times> string) list"
  spawned :: "string list list"

definition logging :: "log_record list \<Rightarrow> world \<Rightarrow> world" where
  "logging rs w = w\<lparr>logged := logged w @ rs\<rparr>"

definition exists_path :: "world \<Rightarrow> string \<Rightarrow> bool" where
  "exists_path w p = (map_of (fs w) p \<noteq> None)"

definition isdir :: "world \<Rightarrow> string \<Rightarrow> bool" where
  "isdir w p = (case map_of (fs w) p of None \<Rightarrow> False | Some st \<Rightarrow> st_isdir st)"

definition getmtime :: "world \<Rightarrow> string \<Rightarrow> py_exception + rat" where
  "getmtime w p =
     (case map_of (fs w) p of None \<Rightarrow> Inl (FileNotFoundError p) | Some st \<Rightarrow> Inr (st_mtime st))"

definition getsize :: "world \<Rightarrow> string \<Rightarrow> py_exception + nat" where
  "getsize w p =
     (case map_of (fs w) p of None \<Rightarrow> Inl (FileNotFoundError p) | Some st \<Rightarrow> Inr (st_size st))"

text \<open>\<open>os.listdir d\<close>: the names of the entries directly in \<open>d\<close>.\<close>

definition listdir :: "world \<Rightarrow> string \<Rightarrow> string list" where
  "listdir w d =
     map basename
       (filter (\<lambda>p. basename p \<noteq> [] \<and> join d (basename p) = p) (remdups (map fst (fs w))))"

subsection \<open>What the environment answers\<close>

text \<open>
  What happens outside the program during one call of \<open>convert_file\<close>: whether the
  temporary directory can be made (and its name), whether the input can be copied into it,
  what the tool does when it is started (it cannot be started, which is an exception, or
  it runs for a number of seconds and ends with an exit code and the text of its error
  stream), whether the
  produced file can be copied to its destination (and the stat of the copy), and whether
  the temporary directory can be removed.
\<close>

record conversion =
  tmp_dir :: "py_exception + string"
  copy_in :: "py_exception option"
  run :: "py_exception + rat \<times> int \<times> string"
  copy_out :: "py_exception + stat"
  cleanup :: "py_exception option"

text \<open>
  The environment of a run: the answer of \<open>shutil.which\<close> (whether it finds the name),
  what \<open>os.walk\<close> yields for a top directory, what happens during the conversion of an
  input path, the result of creating a directory (an error, or the stat of the new
  directory), the two readings of \<open>time.time()\<close>, and the stat of a text file after the
  program wrote it.
\<close>

record env =
  which :: "string \<Rightarrow> bool"
  walk :: "string \<Rightarrow> (string \<times> string list \<times> string list) list"
  conversion_of :: "string \<Rightarrow> conversion"
  mkdir :: "string \<Rightarrow> py_exception + stat"
  start_time :: rat
  end_time :: rat
  written_stat :: "string \<Rightarrow> stat"

section \<open>The program\<close>

subsection \<open>\<open>get_ffmpeg_path\<close>\<close>

definition paths :: "string list" where
  "paths =
     [''ffmpeg'',
      ''C:'' @ [backslash] @ ''ffmpeg'' @ [backslash] @ ''bin'' @ [backslash] @ ''ffmpeg.exe'',
      ''C:'' @ [backslash] @ ''Program Files'' @ [backslash] @ ''ffmpeg'' @ [backslash]
         @ ''bin'' @ [backslash] @ ''ffmpeg.exe'',
      ''C:'' @ [backslash] @ ''Program Files (x86)'' @ [backslash] @ ''ffmpeg'' @ [backslash]
         @ ''bin'' @ [backslash] @ ''ffmpeg.exe'']"

text \<open>
  The loop over the candidates returns the first one that \<open>shutil.which\<close> finds or that
  exists; after the loop, the three messages are logged and the result is \<open>None\<close>.
\<close>

definition get_ffmpeg_path :: "env \<Rightarrow> world \<Rightarrow> string option \<times> world" where
  "get_ffmpeg_path e w =
     (case find (\<lambda>path. which e path \<or> exists_path w path) paths of
        Some path \<Rightarrow> (Some path, w)
      | None \<Rightarrow> (None, logging [Error_ffmpeg_not_found, Info_download, Info_extract] w))"

subsection \<open>\<open>convert_file\<close>\<close>

text \<open>Python's \<open>/\<close> on numbers: a zero divisor raises.\<close>

definition truediv :: "rat \<Rightarrow> rat \<Rightarrow> py_exception + rat" where
  "truediv a b = (if b = 0 then Inl ZeroDivisionError else Inr (a / b))"

definition command :: "string \<Rightarrow> string \<Rightarrow> string \<Rightarrow> string list" where
  "command ffmpeg_path tmp_input tmp_output =
     [ffmpeg_path, ''-i'', tmp_input,
      ''-c:v'', ''mpeg2video'', ''-b:v'', ''600k'', ''-maxrate'', ''800k'',
      ''-bufsize'', ''1200k'', ''-g'', ''15'', ''-bf'', ''0'',
      ''-vf'', ''scale=640:360'', ''-r'', ''24'',
      ''-c:a'', ''mp2'', ''-b:a'', ''48k'', ''-ar'', ''32000'', ''-ac'', ''1'',
      ''-threads'', ''0'', ''-f'', ''mpeg'', tmp_output]"

text \<open>The test of the loop over the lines of the error stream.\<close>

definition is_error_line :: "string \<Rightarrow> bool" where
  "is_error_line line = (contains (lower line) ''error'' \<or> contains (lower line) ''failed'')"

text \<open>
  The loop \<^verbatim>\<open>for line in error_lines\<close>: \<open>error_msg\<close> starts empty and becomes the
  stripped line at the first line that passes the test, where the loop breaks.
\<close>

fun scan_error_lines :: "string list \<Rightarrow> string" where
  "scan_error_lines [] = []"
| "scan_error_lines (line # rest) =
     (if is_error_line line then strip line else scan_error_lines rest)"

text \<open>
  The \<open>else\<close> branch of \<open>convert_file\<close> (a nonzero exit code): the message extracted
  from the error stream. \<open>stderr[-500:]\<close> is the last 500 characters, the whole string
  when it is shorter.
\<close>

definition extract_error :: "string \<Rightarrow> string" where
  "extract_error stderr =
     (let error_lines = str_split stderr newline;
          error_msg = scan_error_lines error_lines
      in if error_msg = []
         then (let tail = drop (length stderr - 500) stderr
               in if tail = [] then ''Unknown error'' else tail)
         else error_msg)"

text \<open>
  \<open>subprocess.run(command, ..., timeout=timeout)\<close>: the exception of a tool that cannot
  be started, \<open>TimeoutExpired\<close> when the tool runs longer than \<open>timeout\<close> seconds (it
  is killed then, and not started again), and otherwise the exit code and the text of the
  error stream.
\<close>

definition subprocess_run ::
  "string list \<Rightarrow> nat \<Rightarrow> py_exception + rat \<times> int \<times> string \<Rightarrow> py_exception + int \<times> string" where
  "subprocess_run cmd timeout behaviour =
     (case behaviour of
        Inl e \<Rightarrow> Inl e
      | Inr (seconds, returncode, stderr) \<Rightarrow>
          if seconds > of_nat timeout then Inl (TimeoutExpired cmd timeout)
          else Inr (returncode, stderr))"

text \<open>
  The world after a successful \<open>shutil.copy2(src, dst)\<close> of a file with stat \<open>st\<close>: a
  destination that is a directory receives the file under the name of the source.
\<close>

definition copy2 :: "string \<Rightarrow> string \<Rightarrow> stat \<Rightarrow> world \<Rightarrow> world" where
  "copy2 src dst st w =
     (let target = (if isdir w dst then join dst (basename src) else dst)
      in w\<lparr>fs := (target, st\<lparr>st_isdir := False\<rparr>) # fs w\<rparr>)"

text \<open>
  The lines after the copy of the produced file: the two sizes in megabytes, the
  compression ratio, and the returned pair. Nothing is changed here, but
  \<open>os.path.getsize\<close> and the division can raise.
\<close>

definition size_summary :: "world \<Rightarrow> string \<Rightarrow> string \<Rightarrow> py_exception + bool \<times> message" where
  "size_summary w input_path output_path =
     (case getsize w input_path of
        Inl e \<Rightarrow> Inl e
      | Inr input_bytes \<Rightarrow>
         (case getsize w output_path of
            Inl e \<Rightarrow> Inl e
          | Inr output_bytes \<Rightarrow>
             (let input_size = rat_of_nat input_bytes / (1024 * 1024);
                  output_size = rat_of_nat output_bytes / (1024 * 1024) in
              case truediv output_size input_size of
                Inl e \<Rightarrow> Inl e
              | Inr q \<Rightarrow> Inr (True, Summary output_size ((1 - q) * 100)))))"

text \<open>
  The body of the \<open>with\<close> block, in the temporary directory \<open>tmp\<close>. The result is the
  returned pair, or the exception that leaves the block; the changes of the world made
  before an exception stay. The tool is given 600 seconds.
\<close>

definition convert_body ::
  "conversion \<Rightarrow> string \<Rightarrow> string \<Rightarrow> string \<Rightarrow> string \<Rightarrow> world
     \<Rightarrow> (py_exception + bool \<times> message) \<times> world" where
  "convert_body c ffmpeg_path input_path output_path tmp w =
     (let tmp_input = join tmp ''input.mp4'' in
      case copy_in c of
        Some e \<Rightarrow> (Inl e, w)
      | None \<Rightarrow>
         (let w1 = w\<lparr>spawned := spawned w
                      @ [command ffmpeg_path tmp_input (join tmp ''output.mpeg'')]\<rparr> in
          case subprocess_run (command ffmpeg_path tmp_input (join tmp ''output.mpeg'')) 600
                 (run c) of
            Inl e \<Rightarrow> (Inl e, w1)
          | Inr (returncode, stderr) \<Rightarrow>
             if returncode = 0 then
               (case copy_out c of
                  Inl e \<Rightarrow> (Inl e, w1)
                | Inr st \<Rightarrow>
                   (let w2 = copy2 (join tmp ''output.mpeg'') output_path st w1
                    in (size_summary w2 input_path output_path, w2)))
             else (Inr (False, Text (extract_error stderr)), w1)))"

text \<open>
  \<open>convert_file\<close>: the \<open>with\<close> block inside \<open>try\<close>. An exception of
  \<open>TemporaryDirectory()\<close>, of the body or of the removal of the directory on leaving
  the block reaches \<^verbatim>\<open>except Exception as e\<close>, which returns \<open>(False, str(e))\<close>.
\<close>

definition convert_file ::
  "conversion \<Rightarrow> string \<Rightarrow> string \<Rightarrow> string \<Rightarrow> world \<Rightarrow> (bool \<times> message) \<times> world" where
  "convert_file c ffmpeg_path input_path output_path w =
     (let w0 = w\<lparr>calls := calls w @ [(input_path, output_path)]\<rparr> in
      case tmp_dir c of
        Inl e \<Rightarrow> ((False, Text (exc_str e)), w0)
      | Inr tmp \<Rightarrow>
         (case convert_body c ffmpeg_path input_path output_path tmp w0 of
            (r, w1) \<Rightarrow>
              (case (case cleanup c of Some e \<Rightarrow> Inl e | None \<Rightarrow> r) of
                 Inl e \<Rightarrow> ((False, Text (exc_str e)), w1)
               | Inr res \<Rightarrow> (res, w1))))"

subsection \<open>\<open>convert_folder\<close>\<close>

text \<open>
  \<open>os.makedirs(name, exist_ok=True)\<close>: nothing happens when the directory exists, a
  file of that name is an error, and otherwise the environment decides whether the
  directory can be created.
\<close>

definition makedirs :: "env \<Rightarrow> string \<Rightarrow> world \<Rightarrow> py_exception option \<times> world" where
  "makedirs e name w =
     (case map_of (fs w) name of
        Some st \<Rightarrow> if st_isdir st then (None, w) else (Some (FileExistsError name), w)
      | None \<Rightarrow>
         (case mkdir e name of
            Inl x \<Rightarrow> (Some x, w)
          | Inr st \<Rightarrow> (None, w\<lparr>fs := (name, st\<lparr>st_isdir := True\<rparr>) # fs w\<rparr>)))"

text \<open>
  The two nested loops over \<open>os.walk(input_folder)\<close>: the paths \<open>join root file\<close> of the
  files whose lower-cased name ends with \<open>.mp4\<close>, in the order of the walk.
\<close>

definition collect_mp4 :: "(string \<times> string list \<times> string list) list \<Rightarrow> string list" where
  "collect_mp4 walked =
     concat (map (\<lambda>(root, dirs, files).
                    map (join root) (filter (\<lambda>file. endswith (lower file) ''.mp4'') files))
                 walked)"

text \<open>
  The output path of an input path, as the conversion loop and the loop that writes the
  list of failed files both compute it:
  \<^verbatim>\<open>os.path.join(output_folder, os.path.splitext(sanitize_filename(filename))[0] + ".mpeg")\<close>
  with \<^verbatim>\<open>filename = os.path.basename(input_path)\<close>.
\<close>

definition output_path_of :: "string \<Rightarrow> string \<Rightarrow> string" where
  "output_path_of output_folder input_path =
     (let filename = basename input_path;
          safe_name = sanitize_filename filename
      in join output_folder (fst (splitext safe_name) @ ''.mpeg''))"

text \<open>
  The condition of the skip:
  \<^verbatim>\<open>os.path.exists(output_path) and os.path.getmtime(output_path) > os.path.getmtime(input_path)\<close>.
  The times are read only when the output exists; reading the time of a missing path
  raises.
\<close>

definition skip_condition :: "world \<Rightarrow> string \<Rightarrow> string \<Rightarrow> py_exception + bool" where
  "skip_condition w output_path input_path =
     (if exists_path w output_path then
        (case getmtime w output_path of
           Inl x \<Rightarrow> Inl x
         | Inr output_mtime \<Rightarrow>
            (case getmtime w input_path of
               Inl x \<Rightarrow> Inl x
             | Inr input_mtime \<Rightarrow> Inr (output_mtime > input_mtime)))
      else Inr False)"

text \<open>
  The body of the conversion loop for the \<open>i\<close>-th file: the new value of
  \<open>success_count\<close>, or the exception that leaves \<open>convert_folder\<close>.
\<close>

definition loop_body ::
  "env \<Rightarrow> string \<Rightarrow> string \<Rightarrow> nat \<Rightarrow> nat \<Rightarrow> string \<Rightarrow> nat \<Rightarrow> world
     \<Rightarrow> (py_exception + nat) \<times> world" where
  "loop_body e ffmpeg_path output_folder total_files i input_path success_count w =
     (let filename = basename input_path;
          output_path = output_path_of output_folder input_path;
          w1 = logging [Info_converting i total_files filename] w in
      case skip_condition w1 output_path input_path of
        Inl x \<Rightarrow> (Inl x, w1)
      | Inr True \<Rightarrow> (Inr (success_count + 1), logging [Info_skipped filename] w1)
      | Inr False \<Rightarrow>
         (case convert_file (conversion_of e input_path) ffmpeg_path input_path output_path w1 of
            ((success, result_msg), w2) \<Rightarrow>
              if success
              then (Inr (success_count + 1), logging [Info_success filename result_msg] w2)
              else (Inr success_count,
                    logging [Error_failed filename, Error_cause result_msg] w2)))"

fun convert_loop ::
  "env \<Rightarrow> string \<Rightarrow> string \<Rightarrow> nat \<Rightarrow> nat \<Rightarrow> string list \<Rightarrow> nat \<Rightarrow> world
     \<Rightarrow> (py_exception + nat) \<times> world" where
  "convert_loop e ffmpeg_path output_folder total_files i [] success_count w =
     (Inr success_count, w)"
| "convert_loop e ffmpeg_path output_folder total_files i (input_path # rest) success_count w =
     (case loop_body e ffmpeg_path output_folder total_files i input_path success_count w of
        (Inl x, w') \<Rightarrow> (Inl x, w')
      | (Inr success_count', w') \<Rightarrow>
          convert_loop e ffmpeg_path output_folder total_files (i + 1) rest success_count' w')"

text \<open>
  The loop over \<open>mp4_files\<close> that adds up the sizes of the inputs that exist, and the loop
  over \<open>os.listdir(output_folder)\<close> that adds up the sizes of the entries whose name ends
  with \<open>.mpeg\<close>.
\<close>

fun sum_input_sizes :: "world \<Rightarrow> string list \<Rightarrow> nat \<Rightarrow> py_exception + nat" where
  "sum_input_sizes w [] total_input_size = Inr total_input_size"
| "sum_input_sizes w (input_path # rest) total_input_size =
     (if exists_path w input_path then
        (case getsize w input_path of
           Inl x \<Rightarrow> Inl x
         | Inr n \<Rightarrow> sum_input_sizes w rest (total_input_size + n))
      else sum_input_sizes w rest total_input_size)"

fun sum_output_sizes :: "world \<Rightarrow> string \<Rightarrow> string list \<Rightarrow> nat \<Rightarrow> py_exception + nat" where
  "sum_output_sizes w output_folder [] total_output_size = Inr total_output_size"
| "sum_output_sizes w output_folder (file # rest) total_output_size =
     (if endswith file ''.mpeg'' then
        (case getsize w (join output_folder file) of
           Inl x \<Rightarrow> Inl x
         | Inr n \<Rightarrow> sum_output_sizes w output_folder rest (total_output_size + n))
      else sum_output_sizes w output_folder rest total_output_size)"

text \<open>
  The block under \<^verbatim>\<open>if success_count > 0\<close>: the three lines about sizes. The numbers in
  megabytes are rationals here, where the program has their floating-point values.
\<close>

definition size_lines :: "world \<Rightarrow> string \<Rightarrow> string list \<Rightarrow> py_exception + log_record list" where
  "size_lines w output_folder mp4_files =
     (case sum_input_sizes w mp4_files 0 of
        Inl x \<Rightarrow> Inl x
      | Inr total_input_size \<Rightarrow>
         (case sum_output_sizes w output_folder (listdir w output_folder) 0 of
            Inl x \<Rightarrow> Inl x
          | Inr total_output_size \<Rightarrow>
             (let total_input_mb = rat_of_nat total_input_size / (1024 * 1024);
                  total_output_mb = rat_of_nat total_output_size / (1024 * 1024);
                  savings = total_input_mb - total_output_mb in
              case (if total_input_mb > 0
                    then (case truediv savings total_input_mb of
                            Inl x \<Rightarrow> Inl x
                          | Inr q \<Rightarrow> Inr (q * 100))
                    else Inr 0) of
                Inl x \<Rightarrow> Inl x
              | Inr savings_percent \<Rightarrow>
                  Inr [Info_input_size total_input_mb,
                       Info_output_size total_output_mb,
                       Info_savings savings savings_percent])))"

text \<open>
  The loop that writes the lines of the failed files: \<^verbatim>\<open>f"{i}. {filename}\n"\<close> for
  every input whose output path does not exist.
\<close>

fun failed_lines :: "world \<Rightarrow> string \<Rightarrow> nat \<Rightarrow> string list \<Rightarrow> string" where
  "failed_lines w output_folder i [] = []"
| "failed_lines w output_folder i (input_path # rest) =
     (let filename = basename input_path;
          output_path = output_path_of output_folder input_path
      in (if \<not> exists_path w output_path
          then str_nat i @ ''. '' @ filename @ [newline]
          else [])
         @ failed_lines w output_folder (i + 1) rest)"

text \<open>
  The block under \<^verbatim>\<open>if success_count < total_files\<close>: \<open>open(..., "w")\<close> creates or
  empties \<open>failed_files.txt\<close> in the output folder (a directory of that name is an
  error), then the header and the lines are written.
\<close>

definition write_failed_files ::
  "env \<Rightarrow> string \<Rightarrow> string list \<Rightarrow> world \<Rightarrow> py_exception option \<times> world" where
  "write_failed_files e output_folder mp4_files w =
     (let path = join output_folder ''failed_files.txt'' in
      if isdir w path then (Some (IsADirectoryError path), w)
      else
        (let w1 = w\<lparr>fs := (path, (written_stat e path)\<lparr>st_isdir := False\<rparr>) # fs w,
                    texts := (texts w)(path \<mapsto> [])\<rparr>;
             text = ''File yang gagal dikonversi:'' @ [newline]
                      @ failed_lines w1 output_folder 1 mp4_files
         in (None, w1\<lparr>texts := (texts w1)(path \<mapsto> text)\<rparr>)))"

text \<open>The part of \<open>convert_folder\<close> after the conversion loop.\<close>

definition report ::
  "env \<Rightarrow> string \<Rightarrow> string list \<Rightarrow> nat \<Rightarrow> nat \<Rightarrow> world \<Rightarrow> py_exception option \<times> world" where
  "report e output_folder mp4_files total_files success_count w =
     (let elapsed = end_time e - start_time e;
          mins = \<lfloor>elapsed / 60\<rfloor>;
          secs = elapsed - 60 * of_int mins;
          w1 = logging [Info_rule_top, Info_report_title, Info_total total_files,
                        Info_berhasil success_count,
                        Info_gagal (int total_files - int success_count),
                        Info_waktu mins \<lfloor>secs\<rfloor>] w in
      case (if success_count > 0 then size_lines w1 output_folder mp4_files else Inr []) of
        Inl x \<Rightarrow> (Some x, w1)
      | Inr lines \<Rightarrow>
         (let w2 = logging (lines @ [Info_output_dir output_folder, Info_rule]) w1 in
          if success_count < total_files
          then write_failed_files e output_folder mp4_files w2
          else (None, w2)))"

text \<open>
  \<open>convert_folder\<close>. The result is the exception that leaves the function, if any, and
  the world after the call.
\<close>

definition convert_folder ::
  "env \<Rightarrow> string \<Rightarrow> string option \<Rightarrow> world \<Rightarrow> py_exception option \<times> world" where
  "convert_folder e input_folder output_folder_arg w =
     (case get_ffmpeg_path e w of
        (None, w1) \<Rightarrow> (None, w1)
      | (Some ffmpeg_path, w1) \<Rightarrow>
         (let output_folder =
                (case output_folder_arg of
                   None \<Rightarrow> join input_folder ''MPEG_360p_Output''
                 | Some d \<Rightarrow> d) in
          case makedirs e output_folder w1 of
            (Some x, w2) \<Rightarrow> (Some x, w2)
          | (None, w2) \<Rightarrow>
             (let mp4_files = collect_mp4 (walk e input_folder) in
              if mp4_files = [] then (None, logging [Warning_no_mp4] w2)
              else
                (let total_files = length mp4_files;
                     w3 = logging [Info_found total_files] w2 in
                 case convert_loop e ffmpeg_path output_folder total_files 1 mp4_files 0 w3 of
                   (Inl x, w4) \<Rightarrow> (Some x, w4)
                 | (Inr success_count, w4) \<Rightarrow>
                     report e output_folder mp4_files total_files success_count w4))))"

section \<open>Sample conversions and a sample world\<close>

text \<open>
  Concrete values on which the theorems below are instantiated: a conversion that
  succeeds, one where the tool exits with code 1, one where the matching line of the error
  stream is indented, one where the tool runs out of time, one where the temporary directory cannot be removed,
  a world whose input has no bytes, and a world with two inputs
  \<open>in/a.mp4\<close> and \<open>in/b.mp4\<close>.
\<close>

definition file_stat :: "nat \<Rightarrow> rat \<Rightarrow> stat" where
  "file_stat n mtime = \<lparr>st_isdir = False, st_size = n, st_mtime = mtime\<rparr>"

definition dir_stat :: "rat \<Rightarrow> stat" where
  "dir_stat mtime = \<lparr>st_isdir = True, st_size = 0, st_mtime = mtime\<rparr>"

definition conv_ok :: conversion where
  "conv_ok = \<lparr>tmp_dir = Inr ''/tmp/t1'', copy_in = None, run = Inr (42, 0, ''''),
     copy_out = Inr (file_stat 1048576 100), cleanup = None\<rparr>"

definition conv_bad :: conversion where
  "conv_bad = \<lparr>tmp_dir = Inr ''/tmp/t2'', copy_in = None, run = Inr (3, 1, ''Error: invalid data''),
     copy_out = Inl (Exception ''FileNotFoundError'' ''output.mpeg''), cleanup = None\<rparr>"






definition sample_world :: world where
  "sample_world = \<lparr>fs = [(''in'', dir_stat 5),
                  (''in/a.mp4'', file_stat 3145728 10),
                  (''in/b.mp4'', file_stat 2097152 20)],
     texts = (\<lambda>p. None), logged = [], calls = [], spawned = []\<rparr>"

definition sample_env :: env where
  "sample_env = \<lparr>which = (\<lambda>p. p = ''ffmpeg''),
     walk = (\<lambda>top. [(top, [''MPEG_360p_Output''], [''a.mp4'', ''b.mp4'', ''notes.txt''])]),
     conversion_of = (\<lambda>p. if p = ''in/a.mp4'' then conv_ok else conv_bad),
     mkdir = (\<lambda>p. Inr (dir_stat 50)),
     start_time = 1000, end_time = 1075,
     written_stat = (\<lambda>p. file_stat 40 1075)\<rparr>"

definition rerun_world :: world where
  "rerun_world = sample_world\<lparr>fs := [(''out'', dir_stat 50),
                                     (''out/a.mpeg'', file_stat 1048576 100),
                                     (''out/b.mpeg'', file_stat 1048576 15)] @ fs sample_world\<rparr>"

text \<open>
  A world in which the walk still lists \<open>in/a.mp4\<close>, but the file is gone (a dangling
  link, say), while its output of an earlier run is there; \<open>in/b.mp4\<close> has no output.
\<close>

definition dangling_world :: world where
  "dangling_world = \<lparr>fs = [(''out'', dir_stat 50),
                            (''out/a.mpeg'', file_stat 1048576 100),
                            (''in'', dir_stat 5),
                            (''in/b.mp4'', file_stat 2097152 20)],
     texts = (\<lambda>p. None), logged = [], calls = [], spawned = []\<rparr>"

text \<open>The world of the sample run when the conversion loop is over.\<close>

definition sample_after_loop :: world where
  "sample_after_loop =
     \<lparr>fs = [(''out/a.mpeg'', file_stat 1048576 100),
             (''out'', dir_stat 50),
             (''in'', dir_stat 5),
             (''in/a.mp4'', file_stat 3145728 10),
             (''in/b.mp4'', file_stat 2097152 20)],
      texts = (\<lambda>p. None),
      logged = [Info_found 2,
                Info_converting 1 2 ''a.mp4'',
                Info_success ''a.mp4'' (Summary 1 (200 / 3)),
                Info_converting 2 2 ''b.mp4'',
                Error_failed ''b.mp4'',
                Error_cause (Text ''Error: invalid data'')],
      calls = [(''in/a.mp4'', ''out/a.mpeg''), (''in/b.mp4'', ''out/b.mpeg'')],
      spawned = [command ''ffmpeg'' ''/tmp/t1/input.mp4'' ''/tmp/t1/output.mpeg'',
                 command ''ffmpeg'' ''/tmp/t2/input.mp4'' ''/tmp/t2/output.mpeg'']\<rparr>"

definition no_tool_env :: env where
  "no_tool_env = sample_env\<lparr>which := (\<lambda>p. False)\<rparr>"

definition no_mp4_env :: env where
  "no_mp4_env = sample_env\<lparr>walk := (\<lambda>top. [(top, [], [''notes.txt'', ''a.mpeg''])])\<rparr>"

section \<open>Reading the log\<close>

text \<open>
  The records by which the log counts a file as a success (skipped or converted) or as
  a failure, the three lines of the report that carry the counters, and the three lines
  about sizes.
\<close>

definition is_counted_success :: "log_record \<Rightarrow> bool" where
  "is_counted_success r =
     (case r of Info_skipped _ \<Rightarrow> True | Info_success _ _ \<Rightarrow> True | _ \<Rightarrow> False)"

definition is_counted_failure :: "log_record \<Rightarrow> bool" where
  "is_counted_failure r = (case r of Error_failed _ \<Rightarrow> True | _ \<Rightarrow> False)"

definition is_counter_line :: "log_record \<Rightarrow> bool" where
  "is_counter_line r =
     (case r of Info_total _ \<Rightarrow> True | Info_berhasil _ \<Rightarrow> True | Info_gagal _ \<Rightarrow> True
      | _ \<Rightarrow> False)"

definition is_size_line :: "log_record \<Rightarrow> bool" where
  "is_size_line r =
     (case r of Info_input_size _ \<Rightarrow> True | Info_output_size _ \<Rightarrow> True
      | Info_savings _ _ \<Rightarrow> True | _ \<Rightarrow> False)"

text \<open>
  What the records of the conversion loop say: none of them is a line of the report, and
  they count \<open>s\<close> successes and \<open>f\<close> failures.
\<close>

definition loop_records :: "log_record list \<Rightarrow> nat \<Rightarrow> nat \<Rightarrow> bool" where
  "loop_records rs s f =
     (filter is_counter_line rs = [] \<and> filter is_size_line rs = []
      \<and> length (filter is_counted_success rs) = s
      \<and> length (filter is_counted_failure rs) = f)"

section \<open>Properties of the filename sanitizer\<close>

lemma sanitize_filename_eq:
  "sanitize_filename name = take 150 (filter (\<lambda>c. \<not> is_invalid c) name)"
  by (simp add: sanitize_filename_def Let_def)

lemma sanitize_filename_valid:
  "c \<in> set (sanitize_filename name) \<Longrightarrow> \<not> is_invalid c"
  by (auto simp: sanitize_filename_eq dest: in_set_takeD)

lemma sanitize_filename_length:
  "length (sanitize_filename name) \<le> 150"
  by (simp add: sanitize_filename_eq)

lemma filter_valid_id:
  "set xs \<inter> set invalid_chars = {} \<Longrightarrow> filter (\<lambda>c. \<not> is_invalid c) xs = xs"
  by (induction xs) (auto simp: is_invalid_def)

text \<open>
  Claim C1. For every input string, \<open>sanitize_filename\<close> returns a string that contains
  none of the nine characters \<^verbatim>\<open>< > : " / \ | ? *\<close> and has length at most 150; the
  result is the input with those characters deleted, cut to its first 150 characters.
  The result is a function of the input alone.
\<close>

theorem C1_sanitize_filename:
  "set (sanitize_filename name) \<inter> set invalid_chars = {}
   \<and> length (sanitize_filename name) \<le> 150
   \<and> sanitize_filename name = take 150 (filter (\<lambda>c. c \<notin> set invalid_chars) name)"
proof -
  have "set (sanitize_filename name) \<inter> set invalid_chars = {}"
    using sanitize_filename_valid [of _ name] by (auto simp: is_invalid_def)
  moreover have "sanitize_filename name = take 150 (filter (\<lambda>c. c \<notin> set invalid_chars) name)"
    by (simp add: sanitize_filename_eq is_invalid_def)
  ultimately show ?thesis
    using sanitize_filename_length [of name] by simp
qed

text \<open>
  Claim C10. \<open>sanitize_filename\<close> is idempotent, and it returns unchanged every string of
  at most 150 characters that has none of the nine deleted characters.
\<close>

theorem C10_sanitize_filename_idempotent:
  "sanitize_filename (sanitize_filename name) = sanitize_filename name
   \<and> (length name \<le> 150 \<and> set name \<inter> set invalid_chars = {}
        \<longrightarrow> sanitize_filename name = name)"
proof -
  have fixed: "sanitize_filename s = s"
    if "length s \<le> 150" and "set s \<inter> set invalid_chars = {}" for s
    using that by (simp add: sanitize_filename_eq filter_valid_id)
  have "set (sanitize_filename name) \<inter> set invalid_chars = {}"
    using sanitize_filename_valid [of _ name] by (auto simp: is_invalid_def)
  then have "sanitize_filename (sanitize_filename name) = sanitize_filename name"
    using fixed [of "sanitize_filename name"] sanitize_filename_length [of name] by simp
  then show ?thesis
    using fixed [of name] by simp
qed

theorem C10_sanitize_filename_idempotent_witness:
  "sanitize_filename (sanitize_filename ''a<b>:c?.mp4'') = sanitize_filename ''a<b>:c?.mp4''
   \<and> length ''clip.mp4'' \<le> 150 \<and> set ''clip.mp4'' \<inter> set invalid_chars = {}
   \<and> sanitize_filename ''clip.mp4'' = ''clip.mp4''"
proof -
  have h: "length ''clip.mp4'' \<le> 150 \<and> set ''clip.mp4'' \<inter> set invalid_chars = {}"
    by (simp add: invalid_chars_def dquote_def backslash_def)
  show ?thesis
    using h C10_sanitize_filename_idempotent [of "''a<b>:c?.mp4''"]
      C10_sanitize_filename_idempotent [of "''clip.mp4''"]
    by blast
qed

section \<open>Properties of the error message\<close>








section \<open>Properties of \<open>convert_file\<close>\<close>




lemma copy2_fields [simp]:
  "calls (copy2 src dst st w) = calls w" "logged (copy2 src dst st w) = logged w"
  "texts (copy2 src dst st w) = texts w" "spawned (copy2 src dst st w) = spawned w"
  by (simp_all add: copy2_def Let_def)








lemma convert_body_copy_in:
  "copy_in c = Some x \<Longrightarrow> convert_body c ffmpeg_path input_path output_path tmp w = (Inl x, w)"
  by (simp add: convert_body_def)

lemma convert_body_run_raises:
  "copy_in c = None \<Longrightarrow>
   subprocess_run (command ffmpeg_path (join tmp ''input.mp4'') (join tmp ''output.mpeg'')) 600
     (run c) = Inl x \<Longrightarrow>
   convert_body c ffmpeg_path input_path output_path tmp w =
     (Inl x, w\<lparr>spawned := spawned w
                 @ [command ffmpeg_path (join tmp ''input.mp4'') (join tmp ''output.mpeg'')]\<rparr>)"
  by (simp add: convert_body_def)

lemma convert_body_nonzero:
  "copy_in c = None \<Longrightarrow>
   subprocess_run (command ffmpeg_path (join tmp ''input.mp4'') (join tmp ''output.mpeg'')) 600
     (run c) = Inr (returncode, stderr) \<Longrightarrow> returncode \<noteq> 0 \<Longrightarrow>
   convert_body c ffmpeg_path input_path output_path tmp w =
     (Inr (False, Text (extract_error stderr)),
      w\<lparr>spawned := spawned w
                 @ [command ffmpeg_path (join tmp ''input.mp4'') (join tmp ''output.mpeg'')]\<rparr>)"
  by (simp add: convert_body_def)

lemma convert_body_copy_out_raises:
  "copy_in c = None \<Longrightarrow>
   subprocess_run (command ffmpeg_path (join tmp ''input.mp4'') (join tmp ''output.mpeg'')) 600
     (run c) = Inr (0, stderr) \<Longrightarrow> copy_out c = Inl x \<Longrightarrow>
   convert_body c ffmpeg_path input_path output_path tmp w =
     (Inl x, w\<lparr>spawned := spawned w
                 @ [command ffmpeg_path (join tmp ''input.mp4'') (join tmp ''output.mpeg'')]\<rparr>)"
  by (simp add: convert_body_def)

lemma convert_body_copied:
  "copy_in c = None \<Longrightarrow>
   subprocess_run (command ffmpeg_path (join tmp ''input.mp4'') (join tmp ''output.mpeg'')) 600
     (run c) = Inr (0, stderr) \<Longrightarrow> copy_out c = Inr st \<Longrightarrow>
   convert_body c ffmpeg_path input_path output_path tmp w =
     (size_summary
        (copy2 (join tmp ''output.mpeg'') output_path st
           (w\<lparr>spawned := spawned w
                 @ [command ffmpeg_path (join tmp ''input.mp4'') (join tmp ''output.mpeg'')]\<rparr>))
        input_path output_path,
      copy2 (join tmp ''output.mpeg'') output_path st
           (w\<lparr>spawned := spawned w
                 @ [command ffmpeg_path (join tmp ''input.mp4'') (join tmp ''output.mpeg'')]\<rparr>))"
  by (simp add: convert_body_def Let_def)

lemma convert_body_effects:
  "calls (snd (convert_body c ffmpeg_path input_path output_path tmp w)) = calls w
   \<and> logged (snd (convert_body c ffmpeg_path input_path output_path tmp w)) = logged w
   \<and> texts (snd (convert_body c ffmpeg_path input_path output_path tmp w)) = texts w
   \<and> spawned (snd (convert_body c ffmpeg_path input_path output_path tmp w)) =
       (if copy_in c = None
        then spawned w @ [command ffmpeg_path (join tmp ''input.mp4'') (join tmp ''output.mpeg'')]
        else spawned w)"
proof (cases "copy_in c")
  case (Some x)
  then show ?thesis by (simp add: convert_body_copy_in)
next
  case None
  let ?cmd = "command ffmpeg_path (join tmp ''input.mp4'') (join tmp ''output.mpeg'')"
  show ?thesis
  proof (cases "subprocess_run ?cmd 600 (run c)")
    case (Inl x)
    with None show ?thesis by (simp add: convert_body_run_raises)
  next
    case (Inr r)
    obtain returncode stderr where r: "r = (returncode, stderr)" by (cases r)
    show ?thesis
    proof (cases "returncode = 0")
      case False
      with None Inr r show ?thesis by (simp add: convert_body_nonzero)
    next
      case True
      show ?thesis
      proof (cases "copy_out c")
        case (Inl x)
        with None Inr r True show ?thesis by (simp add: convert_body_copy_out_raises)
      next
        case st: (Inr st)
        from None Inr r True st show ?thesis by (simp add: convert_body_copied)
      qed
    qed
  qed
qed

lemma convert_file_unfold:
  assumes "tmp_dir c = Inr tmp"
  shows "convert_file c ffmpeg_path input_path output_path w =
     ((case (case cleanup c of
               Some x \<Rightarrow> Inl x
             | None \<Rightarrow> fst (convert_body c ffmpeg_path input_path output_path tmp
                              (w\<lparr>calls := calls w @ [(input_path, output_path)]\<rparr>))) of
         Inl x \<Rightarrow> (False, Text (exc_str x))
       | Inr res \<Rightarrow> res),
      snd (convert_body c ffmpeg_path input_path output_path tmp
             (w\<lparr>calls := calls w @ [(input_path, output_path)]\<rparr>)))"
proof -
  obtain r w1 where b: "convert_body c ffmpeg_path input_path output_path tmp
           (w\<lparr>calls := calls w @ [(input_path, output_path)]\<rparr>) = (r, w1)"
    by (cases "convert_body c ffmpeg_path input_path output_path tmp
           (w\<lparr>calls := calls w @ [(input_path, output_path)]\<rparr>)")
  show ?thesis
    using assms b by (cases "cleanup c"; cases r) (simp_all add: convert_file_def Let_def)
qed

lemma convert_file_effects:
  "calls (snd (convert_file c ffmpeg_path input_path output_path w)) = calls w @ [(input_path, output_path)]
   \<and> logged (snd (convert_file c ffmpeg_path input_path output_path w)) = logged w
   \<and> texts (snd (convert_file c ffmpeg_path input_path output_path w)) = texts w"
proof (cases "tmp_dir c")
  case (Inl x)
  then show ?thesis by (simp add: convert_file_def)
next
  case (Inr tmp)
  show ?thesis
    using convert_body_effects [of c ffmpeg_path input_path output_path tmp
      "w\<lparr>calls := calls w @ [(input_path, output_path)]\<rparr>"]
    by (simp add: convert_file_unfold [OF Inr])
qed













section \<open>Properties of the conversion loop\<close>

lemma logging_fields [simp]:
  "fs (logging rs w) = fs w" "texts (logging rs w) = texts w" "calls (logging rs w) = calls w"
  "spawned (logging rs w) = spawned w" "logged (logging rs w) = logged w @ rs"
  by (simp_all add: logging_def)

lemma logging_reads [simp]:
  "exists_path (logging rs w) p = exists_path w p" "isdir (logging rs w) p = isdir w p"
  "getmtime (logging rs w) p = getmtime w p" "getsize (logging rs w) p = getsize w p"
  by (simp_all add: exists_path_def isdir_def getmtime_def getsize_def)

lemma skip_condition_logging [simp]:
  "skip_condition (logging rs w) output_path input_path = skip_condition w output_path input_path"
  by (simp add: skip_condition_def cong: sum.case_cong)

lemma logging_logging: "logging rs2 (logging rs1 w) = logging (rs1 @ rs2) w"
  by (simp add: logging_def)

lemma skip_condition_value:
  assumes "map_of (fs w) input_path = Some st_in"
  shows "skip_condition w output_path input_path =
     Inr (case map_of (fs w) output_path of
            None \<Rightarrow> False
          | Some st_out \<Rightarrow> st_mtime st_out > st_mtime st_in)"
  using assms by (simp add: skip_condition_def exists_path_def getmtime_def split: option.splits)

lemma loop_body_skip:
  assumes "skip_condition w (output_path_of output_folder input_path) input_path = Inr True"
  shows "loop_body e ffmpeg_path output_folder total_files i input_path success_count w =
     (Inr (success_count + 1),
      logging [Info_converting i total_files (basename input_path),
               Info_skipped (basename input_path)] w)"
  using assms by (simp add: loop_body_def Let_def logging_logging)

lemma loop_body_raises:
  assumes "skip_condition w (output_path_of output_folder input_path) input_path = Inl x"
  shows "loop_body e ffmpeg_path output_folder total_files i input_path success_count w =
     (Inl x, logging [Info_converting i total_files (basename input_path)] w)"
  using assms by (simp add: loop_body_def Let_def)

lemma loop_body_convert:
  assumes "skip_condition w (output_path_of output_folder input_path) input_path = Inr False"
    and "convert_file (conversion_of e input_path) ffmpeg_path input_path
           (output_path_of output_folder input_path)
           (logging [Info_converting i total_files (basename input_path)] w)
         = ((success, result_msg), w2)"
  shows "loop_body e ffmpeg_path output_folder total_files i input_path success_count w =
     (if success
      then (Inr (success_count + 1), logging [Info_success (basename input_path) result_msg] w2)
      else (Inr success_count,
            logging [Error_failed (basename input_path), Error_cause result_msg] w2))"
  using assms by (simp add: loop_body_def Let_def)

lemma loop_body_convert_calls:
  assumes "skip_condition w (output_path_of output_folder input_path) input_path = Inr False"
  shows "calls (snd (loop_body e ffmpeg_path output_folder total_files i input_path success_count w))
     = calls w @ [(input_path, output_path_of output_folder input_path)]"
proof -
  let ?w1 = "logging [Info_converting i total_files (basename input_path)] w"
  let ?C = "convert_file (conversion_of e input_path) ffmpeg_path input_path
           (output_path_of output_folder input_path) ?w1"
  obtain success result_msg w2 where c: "?C = ((success, result_msg), w2)"
    by (cases ?C) auto
  have "calls w2 = calls w @ [(input_path, output_path_of output_folder input_path)]"
    using convert_file_effects [of "conversion_of e input_path" ffmpeg_path input_path
        "output_path_of output_folder input_path" ?w1] c by simp
  then show ?thesis
    by (simp add: loop_body_convert [OF assms c])
qed

text \<open>
  The skip for an input that exists when its turn comes: the body of the conversion loop
  counts the file as a success without calling \<open>convert_file\<close> if and only if its output
  path exists with a modification time strictly greater than that of the input; when the
  output is missing or not strictly newer, \<open>convert_file\<close> is called, once, on that input
  and output path.
\<close>

lemma loop_body_skip_rule:
  assumes "map_of (fs w) input_path = Some st_in"
  shows "((fst (loop_body e ffmpeg_path output_folder total_files i input_path success_count w)
             = Inr (success_count + 1)
           \<and> calls (snd (loop_body e ffmpeg_path output_folder total_files i input_path
                            success_count w)) = calls w)
          = (case map_of (fs w) (output_path_of output_folder input_path) of
               None \<Rightarrow> False
             | Some st_out \<Rightarrow> st_mtime st_out > st_mtime st_in))
     \<and> ((case map_of (fs w) (output_path_of output_folder input_path) of
               None \<Rightarrow> True
             | Some st_out \<Rightarrow> st_mtime st_out \<le> st_mtime st_in)
          \<longrightarrow> calls (snd (loop_body e ffmpeg_path output_folder total_files i input_path
                              success_count w))
                = calls w @ [(input_path, output_path_of output_folder input_path)])"
proof (cases "case map_of (fs w) (output_path_of output_folder input_path) of
               None \<Rightarrow> False
             | Some st_out \<Rightarrow> st_mtime st_out > st_mtime st_in")
  case True
  then have "skip_condition w (output_path_of output_folder input_path) input_path = Inr True"
    by (simp add: skip_condition_value [OF assms])
  from loop_body_skip [OF this] True show ?thesis
    by (auto split: option.splits)
next
  case False
  then have "skip_condition w (output_path_of output_folder input_path) input_path = Inr False"
    by (simp add: skip_condition_value [OF assms])
  from loop_body_convert_calls [OF this] False show ?thesis
    by (auto split: option.splits)
qed

lemma ev_outputs:
  "output_path_of ''out'' ''in/a.mp4'' = ''out/a.mpeg''"
  "output_path_of ''out'' ''in/b.mp4'' = ''out/b.mpeg''"
  by code_simp+

lemma loop_body_skip_rule_sample:
  "map_of (fs rerun_world) ''in/a.mp4'' = Some (file_stat 3145728 10)
   \<and> map_of (fs rerun_world) ''out/a.mpeg'' = Some (file_stat 1048576 100)
   \<and> fst (loop_body sample_env ''ffmpeg'' ''out'' 2 1 ''in/a.mp4'' 0 rerun_world) = Inr 1
   \<and> calls (snd (loop_body sample_env ''ffmpeg'' ''out'' 2 1 ''in/a.mp4'' 0 rerun_world)) = []
   \<and> map_of (fs rerun_world) ''in/b.mp4'' = Some (file_stat 2097152 20)
   \<and> map_of (fs rerun_world) ''out/b.mpeg'' = Some (file_stat 1048576 15)
   \<and> calls (snd (loop_body sample_env ''ffmpeg'' ''out'' 2 2 ''in/b.mp4'' 1 rerun_world))
       = [(''in/b.mp4'', ''out/b.mpeg'')]"
proof -
  have a: "map_of (fs rerun_world) ''in/a.mp4'' = Some (file_stat 3145728 10)"
    and oa: "map_of (fs rerun_world) ''out/a.mpeg'' = Some (file_stat 1048576 100)"
    and b: "map_of (fs rerun_world) ''in/b.mp4'' = Some (file_stat 2097152 20)"
    and ob: "map_of (fs rerun_world) ''out/b.mpeg'' = Some (file_stat 1048576 15)"
    and c: "calls rerun_world = []"
    by (simp_all add: rerun_world_def sample_world_def)
  show ?thesis
    using loop_body_skip_rule [OF a, of sample_env "''ffmpeg''" "''out''" 2 1 0]
      loop_body_skip_rule [OF b, of sample_env "''ffmpeg''" "''out''" 2 2 1]
    by (simp add: a oa b ob c ev_outputs file_stat_def)
qed

section \<open>Properties of \<open>convert_folder\<close> before the loop\<close>

lemma get_ffmpeg_path_None:
  "fst (get_ffmpeg_path e w) = None \<Longrightarrow>
   get_ffmpeg_path e w = (None, logging [Error_ffmpeg_not_found, Info_download, Info_extract] w)"
  by (simp add: get_ffmpeg_path_def split: option.splits)

lemma get_ffmpeg_path_Some:
  "fst (get_ffmpeg_path e w) = Some ffmpeg_path \<Longrightarrow> get_ffmpeg_path e w = (Some ffmpeg_path, w)"
  by (simp add: get_ffmpeg_path_def split: option.splits)

text \<open>
  Claim C6. When \<open>get_ffmpeg_path\<close> finds no tool, \<open>convert_folder\<close> returns at once:
  the world after the call is the world before it with the three messages of
  \<open>get_ffmpeg_path\<close> added to the log. So the file system is as before (the output
  directory is neither created nor looked at), no text file is written, \<open>convert_file\<close>
  is not called, and no line of the report is logged.
\<close>

theorem C6_tool_not_found:
  assumes "fst (get_ffmpeg_path e w) = None"
  shows "convert_folder e input_folder output_folder_arg w =
     (None, w\<lparr>logged := logged w @ [Error_ffmpeg_not_found, Info_download, Info_extract]\<rparr>)"
  using get_ffmpeg_path_None [OF assms]
  by (simp add: convert_folder_def logging_def)

theorem C6_tool_not_found_witness:
  "fst (get_ffmpeg_path no_tool_env sample_world) = None
   \<and> convert_folder no_tool_env ''in'' None sample_world =
     (None, sample_world\<lparr>logged := [Error_ffmpeg_not_found, Info_download, Info_extract]\<rparr>)"
proof -
  have p: "find (\<lambda>path. exists_path sample_world path) paths = None"
    by (simp add: paths_def exists_path_def sample_world_def)
  have h: "fst (get_ffmpeg_path no_tool_env sample_world) = None"
    by (simp add: get_ffmpeg_path_def no_tool_env_def p)
  have "logged sample_world = []"
    by (simp add: sample_world_def)
  with h C6_tool_not_found [OF h, of "''in''" None] show ?thesis
    by simp
qed

lemma collect_mp4_empty:
  "(collect_mp4 walked = []) =
     (\<forall>(root, dirs, files) \<in> set walked. \<forall>file \<in> set files. \<not> endswith (lower file) ''.mp4'')"
  by (auto simp: collect_mp4_def filter_empty_conv)

lemma makedirs_fields:
  assumes "makedirs e name w = (r, w2)"
  shows "logged w2 = logged w" "texts w2 = texts w" "calls w2 = calls w" "spawned w2 = spawned w"
  using assms by (auto simp: makedirs_def split: option.splits sum.splits if_splits)

text \<open>
  Claim C8. When the tool is found, the output directory exists or can be made, and the
  walk under the input folder yields no file whose lower-cased name ends with \<open>.mp4\<close>,
  \<open>convert_folder\<close> logs the warning and returns. After \<open>os.makedirs\<close> nothing but the
  log changes: no line of the report is logged, no text file is written and
  \<open>convert_file\<close> is not called.
\<close>

theorem C8_no_input_files:
  assumes "fst (get_ffmpeg_path e w) = Some ffmpeg_path"
    and "makedirs e (case output_folder_arg of
                       None \<Rightarrow> join input_folder ''MPEG_360p_Output''
                     | Some d \<Rightarrow> d) w = (None, w2)"
    and "\<forall>(root, dirs, files) \<in> set (walk e input_folder).
           \<forall>file \<in> set files. \<not> endswith (lower file) ''.mp4''"
  shows "convert_folder e input_folder output_folder_arg w
           = (None, w2\<lparr>logged := logged w @ [Warning_no_mp4]\<rparr>)
         \<and> texts w2 = texts w \<and> calls w2 = calls w \<and> spawned w2 = spawned w"
proof -
  have "collect_mp4 (walk e input_folder) = []"
    using assms(3) by (simp add: collect_mp4_empty)
  then have "convert_folder e input_folder output_folder_arg w = (None, logging [Warning_no_mp4] w2)"
    using get_ffmpeg_path_Some [OF assms(1)] assms(2)
    by (simp add: convert_folder_def Let_def)
  then show ?thesis
    using makedirs_fields [OF assms(2)] by (simp add: logging_def)
qed

theorem C8_no_input_files_witness:
  "fst (get_ffmpeg_path no_mp4_env sample_world) = Some ''ffmpeg''
   \<and> makedirs no_mp4_env ''out'' sample_world
        = (None, sample_world\<lparr>fs := (''out'', dir_stat 50) # fs sample_world\<rparr>)
   \<and> convert_folder no_mp4_env ''in'' (Some ''out'') sample_world
        = (None, sample_world\<lparr>fs := (''out'', dir_stat 50) # fs sample_world,
                               logged := [Warning_no_mp4]\<rparr>)"
proof -
  have h1: "fst (get_ffmpeg_path no_mp4_env sample_world) = Some ''ffmpeg''"
    by (simp add: get_ffmpeg_path_def no_mp4_env_def sample_env_def paths_def)
  have h2: "makedirs no_mp4_env (case Some ''out'' of
                       None \<Rightarrow> join ''in'' ''MPEG_360p_Output''
                     | Some d \<Rightarrow> d) sample_world
        = (None, sample_world\<lparr>fs := (''out'', dir_stat 50) # fs sample_world\<rparr>)"
    by (simp add: makedirs_def no_mp4_env_def sample_env_def sample_world_def dir_stat_def)
  have e1: "\<not> endswith (lower ''notes.txt'') ''.mp4''" and e2: "\<not> endswith (lower ''a.mpeg'') ''.mp4''"
    by code_simp+
  have h3: "\<forall>(root, dirs, files) \<in> set (walk no_mp4_env ''in'').
           \<forall>file \<in> set files. \<not> endswith (lower file) ''.mp4''"
    by (simp add: no_mp4_env_def e1 e2)
  have "logged sample_world = []"
    by (simp add: sample_world_def)
  with h1 h2 C8_no_input_files [OF h1 h2 h3] show ?thesis
    by simp
qed

section \<open>The run from the loop on\<close>

lemma convert_folder_loop:
  assumes "fst (get_ffmpeg_path e w) = Some ffmpeg_path"
    and "makedirs e (case output_folder_arg of
                       None \<Rightarrow> join input_folder ''MPEG_360p_Output''
                     | Some d \<Rightarrow> d) w = (None, w2)"
    and "collect_mp4 (walk e input_folder) = mp4_files" and "mp4_files \<noteq> []"
  shows "convert_folder e input_folder output_folder_arg w =
     (case convert_loop e ffmpeg_path
             (case output_folder_arg of
                None \<Rightarrow> join input_folder ''MPEG_360p_Output'' | Some d \<Rightarrow> d)
             (length mp4_files) 1 mp4_files 0 (logging [Info_found (length mp4_files)] w2) of
        (Inl x, w4) \<Rightarrow> (Some x, w4)
      | (Inr success_count, w4) \<Rightarrow>
          report e (case output_folder_arg of
                      None \<Rightarrow> join input_folder ''MPEG_360p_Output'' | Some d \<Rightarrow> d)
            mp4_files (length mp4_files) success_count w4)"
  using get_ffmpeg_path_Some [OF assms(1)] assms(2-4)
  by (simp add: convert_folder_def Let_def)

lemma sample_tool: "fst (get_ffmpeg_path sample_env w) = Some ''ffmpeg''"
  by (simp add: get_ffmpeg_path_def sample_env_def paths_def)

lemma sample_files: "collect_mp4 (walk sample_env ''in'') = [''in/a.mp4'', ''in/b.mp4'']"
proof -
  have "collect_mp4 [(''in'', [''MPEG_360p_Output''], [''a.mp4'', ''b.mp4'', ''notes.txt''])]
      = [''in/a.mp4'', ''in/b.mp4'']"
    by code_simp
  then show ?thesis by (simp add: sample_env_def)
qed

text \<open>
  Claim C2 holds of every input that exists when its turn comes (\<open>loop_body_skip_rule\<close>),
  but \<open>convert_folder\<close> misses the case of a discovered input that is gone while its
  output exists: \<open>os.path.getmtime(input_path)\<close> raises, nothing catches it, and the run
  ends there. In the sample, \<open>in/a.mp4\<close> is neither counted as a success nor given to
  \<open>convert_file\<close>, and \<open>in/b.mp4\<close>, which has no output at all, is never reached.
\<close>

theorem C2_missing_input_aborts:
  "collect_mp4 (walk sample_env ''in'') = [''in/a.mp4'', ''in/b.mp4'']
   \<and> exists_path dangling_world ''out/a.mpeg''
   \<and> exists_path dangling_world ''in/a.mp4'' = False
   \<and> exists_path dangling_world ''out/b.mpeg'' = False
   \<and> fst (convert_folder sample_env ''in'' (Some ''out'') dangling_world)
        = Some (FileNotFoundError ''in/a.mp4'')
   \<and> calls (snd (convert_folder sample_env ''in'' (Some ''out'') dangling_world)) = []
   \<and> logged (snd (convert_folder sample_env ''in'' (Some ''out'') dangling_world))
        = [Info_found 2, Info_converting 1 2 ''a.mp4'']"
proof -
  let ?w3 = "logging [Info_found 2] dangling_world"
  have m: "makedirs sample_env (case Some ''out'' of
                       None \<Rightarrow> join ''in'' ''MPEG_360p_Output''
                     | Some d \<Rightarrow> d) dangling_world = (None, dangling_world)"
    by (simp add: makedirs_def dangling_world_def dir_stat_def)
  have x: "exists_path dangling_world ''out/a.mpeg''"
    "exists_path dangling_world ''in/a.mp4'' = False"
    "exists_path dangling_world ''out/b.mpeg'' = False"
    by (simp_all add: exists_path_def dangling_world_def)
  have o: "output_path_of ''out'' ''in/a.mp4'' = ''out/a.mpeg''"
    by code_simp
  have n: "basename ''in/a.mp4'' = ''a.mp4''"
    by code_simp
  have "skip_condition dangling_world ''out/a.mpeg'' ''in/a.mp4''
      = Inl (FileNotFoundError ''in/a.mp4'')"
    by (simp add: skip_condition_def exists_path_def getmtime_def dangling_world_def)
  then have "skip_condition ?w3 (output_path_of ''out'' ''in/a.mp4'') ''in/a.mp4''
      = Inl (FileNotFoundError ''in/a.mp4'')"
    by (simp add: o)
  from loop_body_raises [OF this, of sample_env "''ffmpeg''" 2 1 0]
  have l: "loop_body sample_env ''ffmpeg'' ''out'' 2 1 ''in/a.mp4'' 0 ?w3
      = (Inl (FileNotFoundError ''in/a.mp4''), logging [Info_converting 1 2 ''a.mp4''] ?w3)"
    by (simp only: n)
  have c: "convert_loop sample_env ''ffmpeg'' ''out'' 2 1 [''in/a.mp4'', ''in/b.mp4''] 0 ?w3
      = (Inl (FileNotFoundError ''in/a.mp4''), logging [Info_converting 1 2 ''a.mp4''] ?w3)"
    by (simp only: convert_loop.simps l prod.case sum.case)
  have len: "length [''in/a.mp4'', ''in/b.mp4''] = 2" and ne: "[''in/a.mp4'', ''in/b.mp4''] \<noteq> []"
    by simp_all
  from convert_folder_loop [OF sample_tool m sample_files ne]
  have "convert_folder sample_env ''in'' (Some ''out'') dangling_world
      = (Some (FileNotFoundError ''in/a.mp4''), logging [Info_converting 1 2 ''a.mp4''] ?w3)"
    by (simp only: len c option.case prod.case sum.case)
  moreover have "calls dangling_world = []" "logged dangling_world = []"
    by (simp_all add: dangling_world_def)
  ultimately show ?thesis
    using x sample_files by simp
qed

section \<open>The log of a run\<close>

lemma loop_records_Nil [simp]: "loop_records [] 0 0"
  by (simp add: loop_records_def)

lemma loop_records_append:
  "loop_records xs s f \<Longrightarrow> loop_records ys s' f' \<Longrightarrow> loop_records (xs @ ys) (s + s') (f + f')"
  by (simp add: loop_records_def)

lemma loop_records_skip:
  "loop_records [Info_converting i n name, Info_skipped name] 1 0"
  by (simp add: loop_records_def is_counter_line_def is_size_line_def is_counted_success_def
      is_counted_failure_def)

lemma loop_records_success:
  "loop_records [Info_converting i n name, Info_success name msg] 1 0"
  by (simp add: loop_records_def is_counter_line_def is_size_line_def is_counted_success_def
      is_counted_failure_def)

lemma loop_records_failure:
  "loop_records [Info_converting i n name, Error_failed name, Error_cause msg] 0 1"
  by (simp add: loop_records_def is_counter_line_def is_size_line_def is_counted_success_def
      is_counted_failure_def)

lemma loop_records_started:
  "loop_records [Info_converting i n name] 0 0"
  by (simp add: loop_records_def is_counter_line_def is_size_line_def is_counted_success_def
      is_counted_failure_def)

text \<open>
  One pass of the loop body adds records of the loop only and writes no text file; when
  it raises nothing, it adds the records of one success and increments the counter, or
  adds the records of one failure and leaves the counter.
\<close>

lemma loop_body_records:
  assumes "loop_body e ffmpeg_path output_folder total_files i input_path success_count w
             = (r, w')"
  shows "\<exists>rs s f. logged w' = logged w @ rs \<and> loop_records rs s f \<and> texts w' = texts w
           \<and> (\<forall>success_count'. r = Inr success_count'
                  \<longrightarrow> s + f = 1 \<and> success_count' = success_count + s)"
proof -
  let ?out = "output_path_of output_folder input_path"
  let ?name = "basename input_path"
  let ?w1 = "logging [Info_converting i total_files ?name] w"
  show ?thesis
  proof (cases "skip_condition w ?out input_path")
    case (Inl x)
    from loop_body_raises [OF this] assms
    have "r = Inl x" and "w' = logging [Info_converting i total_files ?name] w"
      by simp_all
    then show ?thesis
      using loop_records_started [of i total_files ?name] by (intro exI) auto
  next
    case (Inr fresh)
    show ?thesis
    proof (cases fresh)
      case True
      with Inr have "skip_condition w ?out input_path = Inr True" by simp
      from loop_body_skip [OF this] assms
      have "r = Inr (success_count + 1)"
        and "w' = logging [Info_converting i total_files ?name, Info_skipped ?name] w"
        by simp_all
      then show ?thesis
        using loop_records_skip [of i total_files ?name] by (intro exI [of _ 1] exI [of _ 0] exI) auto
    next
      case False
      with Inr have sk: "skip_condition w ?out input_path = Inr False" by simp
      let ?C = "convert_file (conversion_of e input_path) ffmpeg_path input_path ?out ?w1"
      obtain success result_msg w2 where c: "?C = ((success, result_msg), w2)"
        by (cases ?C) auto
      have w2: "logged w2 = logged w @ [Info_converting i total_files ?name]" "texts w2 = texts w"
        using convert_file_effects [of "conversion_of e input_path" ffmpeg_path input_path ?out ?w1] c
        by simp_all
      show ?thesis
      proof (cases success)
        case True
        with loop_body_convert [OF sk c] assms
        have r: "r = Inr (success_count + 1)"
          and "w' = logging [Info_success ?name result_msg] w2"
          by simp_all
        with w2 have "logged w' = logged w @ [Info_converting i total_files ?name,
            Info_success ?name result_msg]" "texts w' = texts w"
          by simp_all
        with r show ?thesis
          using loop_records_success [of i total_files ?name result_msg]
          by (intro exI [of _ 1] exI [of _ 0] exI) auto
      next
        case False
        with loop_body_convert [OF sk c] assms
        have r: "r = Inr success_count"
          and "w' = logging [Error_failed ?name, Error_cause result_msg] w2"
          by simp_all
        with w2 have "logged w' = logged w @ [Info_converting i total_files ?name,
            Error_failed ?name, Error_cause result_msg]" "texts w' = texts w"
          by simp_all
        with r show ?thesis
          using loop_records_failure [of i total_files ?name result_msg]
          by (intro exI [of _ 0] exI [of _ 1] exI) auto
      qed
    qed
  qed
qed

lemma convert_loop_records:
  assumes "convert_loop e ffmpeg_path output_folder total_files i mp4_files success_count w
             = (r, w')"
  shows "\<exists>rs s f. logged w' = logged w @ rs \<and> loop_records rs s f \<and> texts w' = texts w
           \<and> (\<forall>success_count'. r = Inr success_count'
                  \<longrightarrow> s + f = length mp4_files \<and> success_count' = success_count + s)"
  using assms
proof (induction mp4_files arbitrary: i success_count w)
  case Nil
  then show ?case by (intro exI [of _ "[]"] exI [of _ 0]) auto
next
  case (Cons input_path rest)
  let ?L = "loop_body e ffmpeg_path output_folder total_files i input_path success_count w"
  obtain r1 w1 where l: "?L = (r1, w1)" by (cases ?L)
  from loop_body_records [OF l]
  obtain rs1 s1 f1 where 1: "logged w1 = logged w @ rs1" "loop_records rs1 s1 f1"
      "texts w1 = texts w"
      and 14: "\<And>sc. r1 = Inr sc \<Longrightarrow> s1 + f1 = 1 \<and> sc = success_count + s1"
    by auto
  show ?case
  proof (cases r1)
    case (Inl x)
    with l Cons.prems have "r = Inl x" "w' = w1" by simp_all
    with 1 show ?thesis by (intro exI [of _ rs1] exI [of _ s1] exI [of _ f1]) simp
  next
    case (Inr sc1)
    with l Cons.prems
    have rest: "convert_loop e ffmpeg_path output_folder total_files (i + 1) rest sc1 w1
                  = (r, w')"
      by simp
    from 14 [OF Inr] have a: "s1 + f1 = 1" and b: "sc1 = success_count + s1" by simp_all
    from Cons.IH [OF rest]
    obtain rs2 s2 f2 where 2: "logged w' = logged w1 @ rs2" "loop_records rs2 s2 f2"
      "texts w' = texts w1"
      and 24: "\<And>sc. r = Inr sc \<Longrightarrow> s2 + f2 = length rest \<and> sc = sc1 + s2"
      by auto
    have A: "logged w' = logged w @ (rs1 @ rs2)"
      using 1(1) 2(1) by simp
    have B: "loop_records (rs1 @ rs2) (s1 + s2) (f1 + f2)"
      using 1(2) 2(2) by (rule loop_records_append)
    have C: "texts w' = texts w"
      using 1(3) 2(3) by simp
    have D: "\<forall>sc. r = Inr sc \<longrightarrow> (s1 + s2) + (f1 + f2) = length (input_path # rest)
        \<and> sc = success_count + (s1 + s2)"
    proof (intro allI impI)
      fix sc assume "r = Inr sc"
      from 24 [OF this] a b
      show "(s1 + s2) + (f1 + f2) = length (input_path # rest) \<and> sc = success_count + (s1 + s2)"
        by simp
    qed
    from A B C D show ?thesis
      by (intro exI [of _ "rs1 @ rs2"] exI [of _ "s1 + s2"] exI [of _ "f1 + f2"] conjI)
  qed
qed

section \<open>Properties of the report\<close>

lemma size_lines_shape:
  "size_lines w output_folder mp4_files = Inr lines \<Longrightarrow>
   \<exists>a b c d. lines = [Info_input_size a, Info_output_size b, Info_savings c d]"
  by (auto simp: size_lines_def Let_def split: sum.splits if_splits)

lemma write_failed_files_logged:
  "logged (snd (write_failed_files e output_folder mp4_files w)) = logged w"
  by (simp add: write_failed_files_def Let_def)

text \<open>The records that the report adds after the lines of the counters.\<close>

lemma report_records:
  assumes "report e output_folder mp4_files total_files success_count w = (r, w')"
  shows "\<exists>m s rs. logged w' =
            logged w @ [Info_rule_top, Info_report_title, Info_total total_files,
                        Info_berhasil success_count,
                        Info_gagal (int total_files - int success_count), Info_waktu m s] @ rs
          \<and> filter is_counter_line rs = [] \<and> filter is_counted_success rs = []
          \<and> filter is_counted_failure rs = []"
proof -
  let ?w1 = "logging [Info_rule_top, Info_report_title, Info_total total_files,
                        Info_berhasil success_count,
                        Info_gagal (int total_files - int success_count),
                        Info_waktu \<lfloor>(end_time e - start_time e) / 60\<rfloor>
                          \<lfloor>(end_time e - start_time e)
                             - 60 * of_int \<lfloor>(end_time e - start_time e) / 60\<rfloor>\<rfloor>] w"
  let ?S = "if success_count > 0 then size_lines ?w1 output_folder mp4_files else Inr []"
  show ?thesis
  proof (cases ?S)
    case (Inl x)
    with assms have "w' = ?w1"
      by (simp add: report_def Let_def)
    then show ?thesis by (intro exI [of _ "[]"] exI) simp
  next
    case (Inr lines)
    let ?w2 = "logging (lines @ [Info_output_dir output_folder, Info_rule]) ?w1"
    have "w' = ?w2 \<or> w' = snd (write_failed_files e output_folder mp4_files ?w2)"
      using assms Inr by (auto simp: report_def Let_def split: if_splits)
    then have l: "logged w' = logged ?w2"
      using write_failed_files_logged [of e output_folder mp4_files ?w2] by auto
    have "lines = [] \<or> (\<exists>a b c d. lines = [Info_input_size a, Info_output_size b, Info_savings c d])"
      using Inr size_lines_shape [of ?w1 output_folder mp4_files lines] by (auto split: if_splits)
    then have "filter is_counter_line (lines @ [Info_output_dir output_folder, Info_rule]) = []
        \<and> filter is_counted_success (lines @ [Info_output_dir output_folder, Info_rule]) = []
        \<and> filter is_counted_failure (lines @ [Info_output_dir output_folder, Info_rule]) = []"
      by (auto simp: is_counter_line_def is_counted_success_def is_counted_failure_def)
    with l show ?thesis
      by (intro exI [of _ "lines @ [Info_output_dir output_folder, Info_rule]"] exI) simp
  qed
qed


section \<open>The course of a run\<close>

text \<open>
  A run of \<open>convert_folder\<close> ends before the loop, or in the loop by an exception, or it
  reaches the report with the counter of the loop.
\<close>

lemma convert_folder_cases:
  assumes "convert_folder e input_folder output_folder_arg w = (r, w')"
  defines "out \<equiv> (case output_folder_arg of
                     None \<Rightarrow> join input_folder ''MPEG_360p_Output'' | Some d \<Rightarrow> d)"
    and "files \<equiv> collect_mp4 (walk e input_folder)"
  shows "(\<exists>rs. logged w' = logged w @ rs \<and> filter is_counter_line rs = []
              \<and> filter is_size_line rs = []
              \<and> filter is_counted_failure rs = [] \<and> texts w' = texts w)
         \<or> (\<exists>x rs. r = Some x \<and> logged w' = logged w @ rs \<and> filter is_counter_line rs = []
              \<and> filter is_size_line rs = [])
         \<or> (\<exists>w4 rs s f. logged w4 = logged w @ Info_found (length files) # rs
              \<and> loop_records rs s f \<and> s + f = length files \<and> texts w4 = texts w
              \<and> report e out files (length files) s w4 = (r, w'))"
proof (cases "fst (get_ffmpeg_path e w)")
  case None
  from get_ffmpeg_path_None [OF this] assms(1)
  have "w' = logging [Error_ffmpeg_not_found, Info_download, Info_extract] w"
    by (simp add: convert_folder_def)
  then have "logged w' = logged w @ [Error_ffmpeg_not_found, Info_download, Info_extract]
      \<and> texts w' = texts w"
    by simp
  then show ?thesis
    by (intro disjI1 exI [of _ "[Error_ffmpeg_not_found, Info_download, Info_extract]"])
      (simp add: is_counter_line_def is_counted_failure_def is_size_line_def)
next
  case (Some ffmpeg_path)
  note g = get_ffmpeg_path_Some [OF Some]
  obtain r2 w2 where m: "makedirs e out w = (r2, w2)" by (cases "makedirs e out w")
  note mf = makedirs_fields [OF m]
  show ?thesis
  proof (cases r2)
    case (Some x)
    with g m assms(1) have "w' = w2"
      by (simp add: convert_folder_def out_def)
    with mf show ?thesis
      by (intro disjI1 exI [of _ "[]"]) simp
  next
    case None
    show ?thesis
    proof (cases "files = []")
      case True
      with g m None assms(1) have "w' = logging [Warning_no_mp4] w2"
        by (simp add: convert_folder_def out_def files_def Let_def)
      with mf show ?thesis
        by (intro disjI1 exI [of _ "[Warning_no_mp4]"])
          (simp add: is_counter_line_def is_counted_failure_def is_size_line_def)
    next
      case False
      let ?w3 = "logging [Info_found (length files)] w2"
      let ?L = "convert_loop e ffmpeg_path out (length files) 1 files 0 ?w3"
      obtain r4 w4 where l: "?L = (r4, w4)" by (cases ?L)
      from convert_loop_records [OF l] mf
      obtain rs s f where rs: "logged w4 = logged w @ Info_found (length files) # rs"
        "loop_records rs s f" "texts w4 = texts w"
        "\<forall>sc. r4 = Inr sc \<longrightarrow> s + f = length files \<and> sc = s"
        by auto
      show ?thesis
      proof (cases r4)
        case (Inl x)
        with g m None False l assms(1) have "r = Some x" "w' = w4"
          by (simp_all add: convert_folder_def out_def files_def Let_def)
        with rs(1) rs(2) show ?thesis
          by (intro disjI2 disjI1 exI [of _ x] exI [of _ "Info_found (length files) # rs"])
            (simp add: loop_records_def is_counter_line_def is_size_line_def)
      next
        case (Inr sc)
        with g m None False l assms(1)
        have "report e out files (length files) sc w4 = (r, w')"
          by (simp add: convert_folder_def out_def files_def Let_def)
        moreover from rs(4) Inr have "s + f = length files" "sc = s" by simp_all
        ultimately show ?thesis
          using rs(1-3) by (intro disjI2 exI [of _ w4] exI [of _ rs] exI [of _ s] exI [of _ f]) simp
      qed
    qed
  qed
qed

lemma counter_line_in_filter:
  "x \<in> set rs \<Longrightarrow> is_counter_line x \<Longrightarrow> x \<in> set (filter is_counter_line rs)"
  by simp

text \<open>
  Claim C4. In the records that a run adds to the log, the three counters of the report
  add up: the number after \<open>Berhasil\<close> plus the number after \<open>Gagal\<close> is the number after
  \<open>Total file\<close>. The total is the number of discovered files, the number of successes is
  the number of files that the loop logged as skipped or as converted, and the number of
  failures is the number of files that it logged as failed.
\<close>

theorem C4_counters:
  assumes "logged (snd (convert_folder e input_folder output_folder_arg w)) = logged w @ new"
    and "Info_total total_files \<in> set new"
    and "Info_berhasil success_count \<in> set new"
    and "Info_gagal failed_count \<in> set new"
  shows "int success_count + failed_count = int total_files
         \<and> total_files = length (collect_mp4 (walk e input_folder))
         \<and> success_count = length (filter is_counted_success new)
         \<and> failed_count = int (length (filter is_counted_failure new))"
proof -
  let ?R = "convert_folder e input_folder output_folder_arg w"
  let ?out = "case output_folder_arg of
                     None \<Rightarrow> join input_folder ''MPEG_360p_Output'' | Some d \<Rightarrow> d"
  let ?files = "collect_mp4 (walk e input_folder)"
  have t: "Info_total total_files \<in> set (filter is_counter_line new)"
    and b: "Info_berhasil success_count \<in> set (filter is_counter_line new)"
    and g: "Info_gagal failed_count \<in> set (filter is_counter_line new)"
    using assms(2-4) by (simp_all add: is_counter_line_def)
  obtain r w' where R: "?R = (r, w')" by (cases ?R)
  with assms(1) have new: "logged w' = logged w @ new" by simp
  have ne: "filter is_counter_line new \<noteq> []"
  proof
    assume "filter is_counter_line new = []"
    with t show False by auto
  qed
  from convert_folder_cases [OF R] new ne
  obtain w4 rs s f where 1: "logged w4 = logged w @ Info_found (length ?files) # rs"
    "loop_records rs s f" "s + f = length ?files"
    "report e ?out ?files (length ?files) s w4 = (r, w')"
    by auto
  from report_records [OF 1(4)] 1(1) new
  obtain m sec ys where 2: "new = Info_found (length ?files) # rs
        @ [Info_rule_top, Info_report_title, Info_total (length ?files), Info_berhasil s,
           Info_gagal (int (length ?files) - int s), Info_waktu m sec] @ ys"
    "filter is_counter_line ys = []" "filter is_counted_success ys = []"
    "filter is_counted_failure ys = []"
    by auto
  have c: "filter is_counter_line new
      = [Info_total (length ?files), Info_berhasil s, Info_gagal (int (length ?files) - int s)]"
    using 1(2) 2(2) by (simp add: 2(1) loop_records_def is_counter_line_def)
  have s: "length (filter is_counted_success new) = s"
    using 1(2) 2(3) by (simp add: 2(1) loop_records_def is_counted_success_def)
  have f: "length (filter is_counted_failure new) = f"
    using 1(2) 2(4) by (simp add: 2(1) loop_records_def is_counted_failure_def)
  from t b g have "total_files = length ?files" "success_count = s"
    "failed_count = int (length ?files) - int s"
    by (simp_all add: c)
  with s f 1(3) show ?thesis by auto
qed

section \<open>The sample run\<close>

lemma ev_strings:
  "output_path_of ''out'' ''in/a.mp4'' = ''out/a.mpeg''"
  "output_path_of ''out'' ''in/b.mp4'' = ''out/b.mpeg''"
  "basename ''in/a.mp4'' = ''a.mp4''"
  "basename ''in/b.mp4'' = ''b.mp4''"
  "join ''out'' ''failed_files.txt'' = ''out/failed_files.txt''"
  "join ''out'' ''a.mpeg'' = ''out/a.mpeg''"
  "join ''/tmp/t1'' ''output.mpeg'' = ''/tmp/t1/output.mpeg''"
  "join ''/tmp/t1'' ''input.mp4'' = ''/tmp/t1/input.mp4''"
  "join ''/tmp/t2'' ''output.mpeg'' = ''/tmp/t2/output.mpeg''"
  "join ''/tmp/t2'' ''input.mp4'' = ''/tmp/t2/input.mp4''"
  "extract_error ''Error: invalid data'' = ''Error: invalid data''"
  "endswith ''a.mpeg'' ''.mpeg''"
  by code_simp+

lemma ev_collect:
  "collect_mp4 [(''in'', [''MPEG_360p_Output''], [''a.mp4'', ''b.mp4'', ''notes.txt''])]
      = [''in/a.mp4'', ''in/b.mp4'']"
  by code_simp

lemma ev_listdir:
  "map basename
     (filter (\<lambda>p. basename p \<noteq> [] \<and> join ''out'' (basename p) = p)
        (remdups [''out/a.mpeg'', ''out'', ''in'', ''in/a.mp4'', ''in/b.mp4'']))
   = [''a.mpeg'']"
  by code_simp

lemmas eval_defs = convert_folder_def get_ffmpeg_path_def paths_def makedirs_def
  loop_body_def skip_condition_def exists_path_def getmtime_def getsize_def isdir_def
  convert_file_def convert_body_def subprocess_run_def copy2_def size_summary_def truediv_def
  logging_def Let_def sample_env_def sample_world_def conv_ok_def conv_bad_def file_stat_def
  dir_stat_def


lemma ev_digits: "char_of (49::nat) = CHR ''1''" "char_of (50::nat) = CHR ''2''"
  by code_simp+

lemma ev_str_nat: "str_nat 1 = ''1''" "str_nat 2 = ''2''"
  by (simp_all add: str_nat.simps ev_digits)

lemma sample_run_loop:
  "convert_loop sample_env ''ffmpeg'' ''out'' 2 1 [''in/a.mp4'', ''in/b.mp4''] 0
     (logging [Info_found 2] (sample_world\<lparr>fs := (''out'', dir_stat 50) # fs sample_world\<rparr>))
   = (Inr 1, sample_after_loop)"
  by (simp add: eval_defs ev_strings sample_after_loop_def)

lemma sample_makedirs:
  "makedirs sample_env (case Some ''out'' of
                       None \<Rightarrow> join ''in'' ''MPEG_360p_Output''
                     | Some d \<Rightarrow> d) sample_world
     = (None, sample_world\<lparr>fs := (''out'', dir_stat 50) # fs sample_world\<rparr>)"
  by (simp add: makedirs_def sample_env_def sample_world_def dir_stat_def)

lemma sample_run_report:
  "convert_folder sample_env ''in'' (Some ''out'') sample_world
     = report sample_env ''out'' [''in/a.mp4'', ''in/b.mp4''] 2 1 sample_after_loop"
proof -
  have len: "length [''in/a.mp4'', ''in/b.mp4''] = 2" and ne: "[''in/a.mp4'', ''in/b.mp4''] \<noteq> []"
    by simp_all
  from convert_folder_loop [OF sample_tool sample_makedirs sample_files ne]
  show ?thesis
    by (simp only: len sample_run_loop option.case prod.case sum.case)
qed

theorem C4_counters_witness:
  "Info_total 2 \<in> set (logged (snd (convert_folder sample_env ''in'' (Some ''out'') sample_world)))
   \<and> Info_berhasil 1
        \<in> set (logged (snd (convert_folder sample_env ''in'' (Some ''out'') sample_world)))
   \<and> Info_gagal 1
        \<in> set (logged (snd (convert_folder sample_env ''in'' (Some ''out'') sample_world)))
   \<and> length (collect_mp4 (walk sample_env ''in'')) = 2
   \<and> length (filter is_counted_success
        (logged (snd (convert_folder sample_env ''in'' (Some ''out'') sample_world)))) = 1
   \<and> length (filter is_counted_failure
        (logged (snd (convert_folder sample_env ''in'' (Some ''out'') sample_world)))) = 1"
proof -
  let ?R = "convert_folder sample_env ''in'' (Some ''out'') sample_world"
  obtain r w' where R: "report sample_env ''out'' [''in/a.mp4'', ''in/b.mp4''] 2 1 sample_after_loop
      = (r, w')"
    by (cases "report sample_env ''out'' [''in/a.mp4'', ''in/b.mp4''] 2 1 sample_after_loop")
  from report_records [OF R]
  obtain m s rs where "logged w' = logged sample_after_loop
      @ [Info_rule_top, Info_report_title, Info_total 2, Info_berhasil 1,
         Info_gagal (int 2 - int 1), Info_waktu m s] @ rs"
    by auto
  with R have l: "logged (snd ?R) = logged sample_after_loop
      @ [Info_rule_top, Info_report_title, Info_total 2, Info_berhasil 1,
         Info_gagal 1, Info_waktu m s] @ rs"
    by (simp add: sample_run_report)
  have h: "logged (snd ?R) = logged sample_world @ logged (snd ?R)"
    by (simp add: sample_world_def)
  have t: "Info_total 2 \<in> set (logged (snd ?R))"
    and b: "Info_berhasil 1 \<in> set (logged (snd ?R))"
    and g: "Info_gagal 1 \<in> set (logged (snd ?R))"
    by (simp_all add: l)
  from C4_counters [OF h t b g] t b g show ?thesis
    by simp
qed

end
